theory Spec2Isabelle
  imports Complex_Main
begin

section \<open>Mini order processing service: data model\<close>

text \<open>
  The service keeps three SQL tables (\<^verbatim>\<open>src/db/models/model.py\<close>): products, orders and
  order_items. Requests and responses are the pydantic classes of
  \<^verbatim>\<open>src/schemas/schema.py\<close>. Every class is a record here; a class that inherits from
  another extends its record.

  The column \<^verbatim>\<open>id\<close> of each table is the field \<open>id'\<close> (\<open>id\<close> is the identity
  function of HOL), written with the record's name: \<open>Product.id'\<close>, \<open>Order.id'\<close>,
  \<open>OrderItem.id'\<close>. In the bodies of the functions a local variable whose name is also
  a column (\<^verbatim>\<open>subtotal\<close>, \<^verbatim>\<open>unit_price\<close>, ...) carries a prime.

  Prices are Python floats. Their arithmetic is not fixed in this development: every
  function takes the float operations it uses as a record \<open>F\<close>, and every theorem is
  proved for an arbitrary \<open>F\<close>, hence for IEEE binary64 with Python's rounding as well.
  Nothing is assumed of the operations (no associativity, no neutral element); where a
  property needs a law of the arithmetic, the law is a hypothesis of its theorem.
\<close>

record 'f float_ops =
  float_of_int :: "int \<Rightarrow> 'f"          \<comment> \<open>the float of an int: \<^verbatim>\<open>0.0\<close>, and the int operand of \<^verbatim>\<open>float * int\<close>, \<^verbatim>\<open>int - float\<close>\<close>
  int_truediv :: "int \<Rightarrow> int \<Rightarrow> 'f"    \<comment> \<open>\<^verbatim>\<open>a / b\<close> on two ints\<close>
  fadd :: "'f \<Rightarrow> 'f \<Rightarrow> 'f"
  fsub :: "'f \<Rightarrow> 'f \<Rightarrow> 'f"
  fmul :: "'f \<Rightarrow> 'f \<Rightarrow> 'f"
  flt :: "'f \<Rightarrow> 'f \<Rightarrow> bool"           \<comment> \<open>\<^verbatim>\<open>a < b\<close> on two floats\<close>

text \<open>Exact rational arithmetic, the instance on which concrete inputs are evaluated.\<close>

definition exact_ops :: "rat float_ops" where
  "exact_ops =
     \<lparr>float_of_int = of_int,
      int_truediv = (\<lambda>a b. of_int a / of_int b),
      fadd = (+), fsub = (-), fmul = (*), flt = (<)\<rparr>"

subsection \<open>Schemas and tables\<close>

record InventoryUpdate =
  quantity :: int    \<comment> \<open>the quantity to add (positive) or remove (negative)\<close>

record 'f ProductBase =
  name :: string
  description :: string
  price :: 'f
  inventory :: int

type_synonym 'f ProductCreate = "'f ProductBase"

text \<open>A row of products; the schema ProductResponse has the same fields.\<close>

record 'f Product = "'f ProductBase" +
  id' :: int

record OrderItemBase =
  product_id :: int
  quantity :: int

type_synonym OrderItemCreate = OrderItemBase

record 'f OrderItemResponse = OrderItemBase +
  unit_price :: 'f
  discount_applied :: bool

text \<open>A row of order_items: the four columns of a priced line, its own key and its order.\<close>

record 'f OrderItem = "'f OrderItemResponse" +
  id' :: int
  order_id :: int

record OrderBase =
  customer_name :: string
  customer_email :: string

record OrderCreate = OrderBase +
  items :: "OrderItemCreate list"

text \<open>
  A row of orders; \<open>created_at\<close> is a time stamp of the store (seconds). The schema
  OrderResponse has the columns of the row and the lines.
\<close>

record 'f Order = OrderBase +
  id' :: int
  subtotal :: 'f
  shipping_fee :: 'f
  total_amount :: 'f
  created_at :: nat

record 'f OrderResponse = "'f Order" +
  items :: "'f OrderItemResponse list"

text \<open>The committed content of the database.\<close>

record 'f database =
  products_table :: "'f Product list"
  orders_table :: "'f Order list"
  order_items_table :: "'f OrderItem list"

subsection \<open>Configuration, environment, errors\<close>

text \<open>The four module constants of \<^verbatim>\<open>order_service.py\<close>, read from the environment.\<close>

record 'f config =
  BULK_DISCOUNT_THRESHOLD :: int
  BULK_DISCOUNT_PERCENT :: int
  FREE_SHIPPING_THRESHOLD :: 'f
  SHIPPING_FEE :: 'f

text \<open>
  What the store decides during one call: whether \<^verbatim>\<open>db.commit()\<close> goes through, the
  primary keys it generates and the value of \<^verbatim>\<open>func.now()\<close>. The commit is the one
  call to the store that the services guard with a handler, and the one place where the
  store fails here: it succeeds, raises \<^verbatim>\<open>sqlalchemy.exc.IntegrityError\<close>, or raises
  another database error. Queries and \<^verbatim>\<open>flush\<close> go through.
\<close>

datatype commit_result = Committed | IntegrityError string | OperationalError string

record store_env =
  commit_outcome :: commit_result
  new_order_id :: int
  new_item_id :: "nat \<Rightarrow> int"     \<comment> \<open>key of the k-th order line inserted by the call\<close>
  new_product_id :: int
  now :: nat

text \<open>
  The \<^verbatim>\<open>detail\<close> of each HTTPException, with the values its f-string interpolates:
  \<^item> \<open>ProductWithIdNotFound i\<close>: "Product with ID {i} not found"
  \<^item> \<open>NotEnoughInventory n q a\<close>: "Not enough inventory for product {n}. Requested: {q}, Available: {a}"
  \<^item> \<open>DatabaseError e\<close>: "Database error: {e}"
  \<^item> \<open>CannotReduceInventory c q\<close>: "Cannot reduce inventory below zero. Current inventory: {c}, Requested change: {q}"
  \<^item> \<open>ErrorUpdatingInventory e\<close>: "Error updating inventory: {e}"
\<close>

datatype detail =
    ProductWithIdNotFound int
  | NotEnoughInventory string int int
  | DatabaseError string
  | ProductNotFound
  | ProductAlreadyExists
  | CannotReduceInventory int int
  | ErrorUpdatingInventory string

datatype error =
    HTTPException (status_code: nat) (detail: detail)
  | Unhandled string    \<comment> \<open>an exception no handler of the service catches\<close>

section \<open>The services\<close>

subsection \<open>Queries\<close>

text \<open>\<^verbatim>\<open>db.query(model.Product).filter(model.Product.id == i).first()\<close>\<close>

definition query_product :: "'f database \<Rightarrow> int \<Rightarrow> 'f Product option" where
  "query_product db i = find (\<lambda>p. Product.id' p = i) (products_table db)"

text \<open>
  Assigning \<^verbatim>\<open>product.inventory\<close> on the object a query returned writes the row that
  query found, the first with that key.
\<close>

fun write_inventory :: "int \<Rightarrow> int \<Rightarrow> 'f Product list \<Rightarrow> 'f Product list" where
  "write_inventory i v [] = []"
| "write_inventory i v (p # ps) =
     (if Product.id' p = i then p\<lparr>inventory := v\<rparr> # ps else p # write_inventory i v ps)"

definition set_inventory :: "int \<Rightarrow> int \<Rightarrow> 'f database \<Rightarrow> 'f database" where
  "set_inventory i v db = db\<lparr>products_table := write_inventory i v (products_table db)\<rparr>"

text \<open>The stock of a product as a later read sees it.\<close>

definition stock :: "'f database \<Rightarrow> int \<Rightarrow> int option" where
  "stock db i = map_option inventory (query_product db i)"

subsection \<open>OrderService.create_order\<close>

text \<open>
  The first loop (lines 27 to 57): look each line up, check the inventory, price the
  line. \<open>order_items'\<close> and \<open>subtotal'\<close> are the loop's two accumulators. A
  \<^verbatim>\<open>raise\<close> leaves the loop with \<open>Inl\<close>. The loop reads the database and writes
  nothing.
\<close>

fun price_items ::
  "'f float_ops \<Rightarrow> 'f config \<Rightarrow> 'f database \<Rightarrow> OrderItemCreate list \<Rightarrow>
   'f OrderItemResponse list \<Rightarrow> 'f \<Rightarrow> error + ('f OrderItemResponse list \<times> 'f)" where
  "price_items F cfg db [] order_items' subtotal' = Inr (order_items', subtotal')"
| "price_items F cfg db (item # rest) order_items' subtotal' =
     (case query_product db (product_id item) of
        None \<Rightarrow> Inl (HTTPException 404 (ProductWithIdNotFound (product_id item)))
      | Some product \<Rightarrow>
          if inventory product < OrderItemBase.quantity item then
            Inl (HTTPException 400
                   (NotEnoughInventory (name product) (OrderItemBase.quantity item) (inventory product)))
          else
            let discount = BULK_DISCOUNT_THRESHOLD cfg \<le> OrderItemBase.quantity item;
                unit_price' =
                  (if discount then
                     fmul F (price product)
                       (fsub F (float_of_int F 1) (int_truediv F (BULK_DISCOUNT_PERCENT cfg) 100))
                   else price product);
                item_total = fmul F unit_price' (float_of_int F (OrderItemBase.quantity item));
                subtotal'' = fadd F subtotal' item_total
            in price_items F cfg db rest
                 (order_items' @
                    [\<lparr>product_id = product_id item, quantity = OrderItemBase.quantity item,
                      unit_price = unit_price', discount_applied = discount\<rparr>])
                 subtotal'')"

text \<open>
  The second loop (lines 77 to 89) runs over \<^verbatim>\<open>zip(order_items, order.items)\<close>: it adds
  one row per priced line and takes the requested quantity off the product's inventory.
  The product is queried again; on \<^verbatim>\<open>None\<close> the attribute access would raise.
\<close>

fun add_order_items ::
  "store_env \<Rightarrow> int \<Rightarrow> nat \<Rightarrow> 'f database \<Rightarrow>
   ('f OrderItemResponse \<times> OrderItemCreate) list \<Rightarrow> error + 'f database" where
  "add_order_items env oid k db [] = Inr db"
| "add_order_items env oid k db ((item_data, item_request) # rest) =
     (let db_item =
            \<lparr>product_id = product_id item_data, quantity = OrderItemBase.quantity item_data,
             unit_price = unit_price item_data, discount_applied = discount_applied item_data,
             OrderItem.id' = new_item_id env k, order_id = oid\<rparr>;
          db1 = db\<lparr>order_items_table := order_items_table db @ [db_item]\<rparr>
      in (case query_product db1 (product_id item_request) of
            None \<Rightarrow> Inl (Unhandled ''AttributeError'')
          | Some product \<Rightarrow>
              add_order_items env oid (Suc k)
                (set_inventory (Product.id' product)
                   (inventory product - OrderItemBase.quantity item_request) db1)
                rest))"

text \<open>\<^verbatim>\<open>db_order.items\<close>: the rows of order_items that reference the order.\<close>

definition order_rows :: "'f database \<Rightarrow> int \<Rightarrow> 'f OrderItem list" where
  "order_rows db oid = filter (\<lambda>r. order_id r = oid) (order_items_table db)"

text \<open>\<^verbatim>\<open>schema.OrderItemResponse(product_id=item.product_id, ...)\<close> on a row.\<close>

definition item_response :: "'f OrderItem \<Rightarrow> 'f OrderItemResponse" where
  "item_response item =
     \<lparr>product_id = product_id item, quantity = OrderItemBase.quantity item,
      unit_price = unit_price item, discount_applied = discount_applied item\<rparr>"

definition build_response :: "'f database \<Rightarrow> 'f Order \<Rightarrow> 'f OrderResponse" where
  "build_response db db_order =
     \<lparr>customer_name = customer_name db_order,
      customer_email = customer_email db_order,
      Order.id' = Order.id' db_order,
      subtotal = subtotal db_order,
      shipping_fee = shipping_fee db_order,
      total_amount = total_amount db_order,
      created_at = created_at db_order,
      OrderResponse.items = map item_response (order_rows db (Order.id' db_order))\<rparr>"

text \<open>
  The whole method. The session's pending writes are the database \<open>db2\<close>; a commit
  makes them the new content, a rollback (or an exception that leaves the request)
  keeps \<open>db\<close>. The result pairs what the caller receives with the committed content.
\<close>

definition create_order ::
  "'f float_ops \<Rightarrow> 'f config \<Rightarrow> store_env \<Rightarrow> 'f database \<Rightarrow> OrderCreate \<Rightarrow>
   (error + 'f OrderResponse) \<times> 'f database" where
  "create_order F cfg env db order =
     (case price_items F cfg db (OrderCreate.items order) [] (float_of_int F 0) of
        Inl e \<Rightarrow> (Inl e, db)
      | Inr (order_items', subtotal') \<Rightarrow>
          let shipping_fee' =
                (if flt F subtotal' (FREE_SHIPPING_THRESHOLD cfg) then SHIPPING_FEE cfg
                 else float_of_int F 0);
              total_amount' = fadd F subtotal' shipping_fee';
              db_order =
                \<lparr>customer_name = customer_name order, customer_email = customer_email order,
                 Order.id' = new_order_id env, subtotal = subtotal', shipping_fee = shipping_fee',
                 total_amount = total_amount', created_at = now env\<rparr>;
              db1 = db\<lparr>orders_table := orders_table db @ [db_order]\<rparr>
          in (case add_order_items env (Order.id' db_order) 0 db1
                     (zip order_items' (OrderCreate.items order)) of
                Inl e \<Rightarrow> (Inl e, db)
              | Inr db2 \<Rightarrow>
                  (case commit_outcome env of
                     Committed \<Rightarrow> (Inr (build_response db2 db_order), db2)
                   | IntegrityError e \<Rightarrow> (Inl (HTTPException 400 (DatabaseError e)), db)
                   | OperationalError e \<Rightarrow> (Inl (Unhandled e), db))))"

subsection \<open>ProductService\<close>

definition get_product :: "'f database \<Rightarrow> int \<Rightarrow> error + 'f Product" where
  "get_product db pid =
     (case query_product db pid of
        None \<Rightarrow> Inl (HTTPException 404 ProductNotFound)
      | Some product \<Rightarrow> Inr product)"

definition create_product ::
  "store_env \<Rightarrow> 'f database \<Rightarrow> 'f ProductCreate \<Rightarrow> (error + 'f Product) \<times> 'f database" where
  "create_product env db product =
     (let db_product =
            \<lparr>name = name product, description = description product, price = price product,
             inventory = inventory product, Product.id' = new_product_id env\<rparr>
      in (case commit_outcome env of
            Committed \<Rightarrow> (Inr db_product, db\<lparr>products_table := products_table db @ [db_product]\<rparr>)
          | IntegrityError e \<Rightarrow> (Inl (HTTPException 400 ProductAlreadyExists), db)
          | OperationalError e \<Rightarrow> (Inl (Unhandled e), db)))"

text \<open>
  \<^verbatim>\<open>update_product_inventory\<close>: the handler of its commit catches every exception.
\<close>

definition update_product_inventory ::
  "store_env \<Rightarrow> 'f database \<Rightarrow> int \<Rightarrow> InventoryUpdate \<Rightarrow> (error + 'f Product) \<times> 'f database" where
  "update_product_inventory env db pid inv_update =
     (case query_product db pid of
        None \<Rightarrow> (Inl (HTTPException 404 ProductNotFound), db)
      | Some product \<Rightarrow>
          let new_inventory = inventory product + InventoryUpdate.quantity inv_update in
          if new_inventory < 0 then
            (Inl (HTTPException 400
                    (CannotReduceInventory (inventory product) (InventoryUpdate.quantity inv_update))),
             db)
          else
            (case commit_outcome env of
               Committed \<Rightarrow>
                 (Inr (product\<lparr>inventory := new_inventory\<rparr>),
                  set_inventory (Product.id' product) new_inventory db)
             | IntegrityError e \<Rightarrow> (Inl (HTTPException 500 (ErrorUpdatingInventory e)), db)
             | OperationalError e \<Rightarrow> (Inl (HTTPException 500 (ErrorUpdatingInventory e)), db)))"

section \<open>Vocabulary of the properties\<close>

text \<open>A line passes both checks of the first loop: its product exists and has the stock.\<close>

definition line_ok :: "'f database \<Rightarrow> OrderItemCreate \<Rightarrow> bool" where
  "line_ok db item =
     (case query_product db (product_id item) of
        None \<Rightarrow> False
      | Some product \<Rightarrow> OrderItemBase.quantity item \<le> inventory product)"

text \<open>The catalog price times \<open>1 - BULK_DISCOUNT_PERCENT / 100\<close>.\<close>

definition discounted_price :: "'f float_ops \<Rightarrow> 'f config \<Rightarrow> 'f \<Rightarrow> 'f" where
  "discounted_price F cfg p =
     fmul F p (fsub F (float_of_int F 1) (int_truediv F (BULK_DISCOUNT_PERCENT cfg) 100))"

text \<open>What a priced line must be for the requested line \<open>item\<close> of product \<open>product\<close>.\<close>

definition priced_as ::
  "'f float_ops \<Rightarrow> 'f config \<Rightarrow> 'f Product \<Rightarrow> OrderItemCreate \<Rightarrow> 'f OrderItemResponse \<Rightarrow> bool" where
  "priced_as F cfg product item line =
     (product_id line = product_id item \<and>
      OrderItemBase.quantity line = OrderItemBase.quantity item \<and>
      (if BULK_DISCOUNT_THRESHOLD cfg \<le> OrderItemBase.quantity item
       then unit_price line = discounted_price F cfg (price product) \<and> discount_applied line
       else unit_price line = price product \<and> \<not> discount_applied line))"

text \<open>
  The sum over the lines of unit price times quantity, added up in request order from
  \<^verbatim>\<open>0.0\<close>.
\<close>

definition lines_total :: "'f float_ops \<Rightarrow> 'f OrderItemResponse list \<Rightarrow> 'f" where
  "lines_total F lines =
     foldl (\<lambda>s line. fadd F s (fmul F (unit_price line) (float_of_int F (OrderItemBase.quantity line))))
       (float_of_int F 0) lines"

text \<open>The quantity an order requests of product \<open>i\<close>, over all its lines.\<close>

definition requested :: "OrderItemCreate list \<Rightarrow> int \<Rightarrow> int" where
  "requested its i = sum_list (map OrderItemBase.quantity (filter (\<lambda>item. product_id item = i) its))"

text \<open>The key the store generates for the new order is on no line yet.\<close>

definition order_id_unused :: "'f database \<Rightarrow> store_env \<Rightarrow> bool" where
  "order_id_unused db env = (order_rows db (new_order_id env) = [])"

text \<open>The constraint of the request schema on the lines: \<^verbatim>\<open>quantity: int = Field(..., gt=0)\<close>.\<close>

definition items_valid :: "OrderCreate \<Rightarrow> bool" where
  "items_valid order = list_all (\<lambda>item. 0 < OrderItemBase.quantity item) (OrderCreate.items order)"

definition stock_nonneg :: "'f database \<Rightarrow> bool" where
  "stock_nonneg db = list_all (\<lambda>p. 0 \<le> inventory p) (products_table db)"

text \<open>
  A server error is a status 5xx; an exception that no handler catches reaches the
  client as one.
\<close>

fun is_server_error :: "error \<Rightarrow> bool" where
  "is_server_error (HTTPException c d) = (500 \<le> c \<and> c < 600)"
| "is_server_error (Unhandled e) = True"

text \<open>
  What a run of \<open>create_order\<close> lets one observe of pricing and stock: the error, or the
  priced lines with subtotal, shipping fee and total, and the products afterwards.
\<close>

definition outcome ::
  "(error + 'f OrderResponse) \<times> 'f database \<Rightarrow>
   (error + 'f OrderItemResponse list \<times> 'f \<times> 'f \<times> 'f) \<times> 'f Product list" where
  "outcome r =
     (case fst r of
        Inl e \<Rightarrow> Inl e
      | Inr resp \<Rightarrow>
          Inr (OrderResponse.items resp, subtotal resp, shipping_fee resp, total_amount resp),
      products_table (snd r))"

text \<open>The row of orders that \<open>create_order\<close> inserts once the lines add up to \<open>sub\<close>.\<close>

definition new_order_row ::
  "'f float_ops \<Rightarrow> 'f config \<Rightarrow> store_env \<Rightarrow> OrderCreate \<Rightarrow> 'f \<Rightarrow> 'f Order" where
  "new_order_row F cfg env order sub =
     \<lparr>customer_name = customer_name order, customer_email = customer_email order,
      Order.id' = new_order_id env, subtotal = sub,
      shipping_fee = (if flt F sub (FREE_SHIPPING_THRESHOLD cfg) then SHIPPING_FEE cfg
                      else float_of_int F 0),
      total_amount = fadd F sub (if flt F sub (FREE_SHIPPING_THRESHOLD cfg) then SHIPPING_FEE cfg
                      else float_of_int F 0),
      created_at = now env\<rparr>"

section \<open>Concrete inputs\<close>

text \<open>
  The default configuration (threshold 5, 10 percent, free shipping from 50, fee 5) and
  the three products of the fixture of \<^verbatim>\<open>src/tests/test.py\<close>. In the runs that show
  what the program does against a property (an order that fails, a commit that is
  refused, a stock that ends below zero) no line reaches the discount threshold: every
  float such a run computes is a small integer, and exact arithmetic computes what
  binary64 does.
\<close>

definition example_config :: "rat config" where
  "example_config =
     \<lparr>BULK_DISCOUNT_THRESHOLD = 5, BULK_DISCOUNT_PERCENT = 10,
      FREE_SHIPPING_THRESHOLD = 50, SHIPPING_FEE = 5\<rparr>"

definition example_db :: "rat database" where
  "example_db =
     \<lparr>products_table =
        [\<lparr>name = ''Test Product 1'', description = ''Description 1'', price = 10,
          inventory = 20, Product.id' = 1\<rparr>,
         \<lparr>name = ''Test Product 2'', description = ''Description 2'', price = 20,
          inventory = 15, Product.id' = 2\<rparr>,
         \<lparr>name = ''Test Product 3'', description = ''Description 3'', price = 5,
          inventory = 50, Product.id' = 3\<rparr>],
      orders_table = [], order_items_table = []\<rparr>"

definition example_env :: store_env where
  "example_env =
     \<lparr>commit_outcome = Committed, new_order_id = 1, new_item_id = (\<lambda>k. int k + 1),
      new_product_id = 4, now = 0\<rparr>"

definition order_of :: "(int \<times> int) list \<Rightarrow> OrderCreate" where
  "order_of xs =
     \<lparr>customer_name = ''John Doe'', customer_email = ''john@example.com'',
      OrderCreate.items = map (\<lambda>(p, q). \<lparr>product_id = p, quantity = q\<rparr>) xs\<rparr>"

text \<open>Two products that share a name, five of each in stock.\<close>

definition twin_db :: "rat database" where
  "twin_db =
     \<lparr>products_table =
        [\<lparr>name = ''Widget'', description = ''blue'', price = 10, inventory = 5, Product.id' = 1\<rparr>,
         \<lparr>name = ''Widget'', description = ''red'', price = 10, inventory = 5, Product.id' = 2\<rparr>],
      orders_table = [], order_items_table = []\<rparr>"

text \<open>A store that refuses the commit.\<close>

definition failing_env :: store_env where
  "failing_env = example_env\<lparr>commit_outcome := IntegrityError ''duplicate key''\<rparr>"

text \<open>
  A second run: the database already holds an order, the store hands out other keys and
  another time stamp, and another customer sends the request.
\<close>

definition busy_db :: "rat database" where
  "busy_db =
     example_db
       \<lparr>orders_table :=
          [\<lparr>customer_name = ''Customer One'', customer_email = ''one@example.com'',
            Order.id' = 1, subtotal = 5, shipping_fee = 5, total_amount = 10, created_at = 7\<rparr>],
        order_items_table :=
          [\<lparr>product_id = 3, quantity = 1, unit_price = 5, discount_applied = False,
            OrderItem.id' = 1, order_id = 1\<rparr>]\<rparr>"

definition later_env :: store_env where
  "later_env =
     \<lparr>commit_outcome = Committed, new_order_id = 2, new_item_id = (\<lambda>k. int k + 2),
      new_product_id = 5, now = 60\<rparr>"

definition jane_order :: "(int \<times> int) list \<Rightarrow> OrderCreate" where
  "jane_order xs =
     (order_of xs)\<lparr>customer_name := ''Jane Smith'', customer_email := ''jane@example.com''\<rparr>"

section \<open>Lemmas on the queries\<close>

lemma query_product_id: "query_product db i = Some p \<Longrightarrow> Product.id' p = i"
  by (auto simp: query_product_def find_Some_iff)

lemma find_write_inventory:
  "find (\<lambda>p. Product.id' p = j) (write_inventory i v ps) =
     (if j = i then map_option (\<lambda>p. p\<lparr>inventory := v\<rparr>) (find (\<lambda>p. Product.id' p = i) ps)
      else find (\<lambda>p. Product.id' p = j) ps)"
  by (induction ps) auto

lemma stock_set_inventory:
  "stock (set_inventory i v db) j =
     (if j = i then map_option (\<lambda>_. v) (stock db i) else stock db j)"
  by (simp add: stock_def set_inventory_def query_product_def find_write_inventory option.map_comp comp_def)

lemma query_product_order_items_update [simp]:
  "query_product (db\<lparr>order_items_table := t\<rparr>) i = query_product db i"
  by (simp add: query_product_def)

lemma query_product_orders_update [simp]:
  "query_product (db\<lparr>orders_table := t\<rparr>) i = query_product db i"
  by (simp add: query_product_def)

lemma stock_order_items_update [simp]: "stock (db\<lparr>order_items_table := t\<rparr>) i = stock db i"
  by (simp add: stock_def)

lemma stock_orders_update [simp]: "stock (db\<lparr>orders_table := t\<rparr>) i = stock db i"
  by (simp add: stock_def)

lemma stock_Some_iff: "stock db i = Some s \<longleftrightarrow> (\<exists>p. query_product db i = Some p \<and> inventory p = s)"
  by (auto simp: stock_def)

lemma stock_None_iff: "stock db i = None \<longleftrightarrow> query_product db i = None"
  by (simp add: stock_def)

lemma requested_Cons:
  "requested (item # its) i = (if product_id item = i then OrderItemBase.quantity item else 0) + requested its i"
  by (simp add: requested_def)

lemma add_order_items_stock:
  "\<forall>x\<in>set pairs. query_product db (product_id (snd x)) \<noteq> None \<Longrightarrow>
   \<exists>db2. add_order_items env oid k db pairs = Inr db2 \<and>
     (\<forall>j. stock db2 j = map_option (\<lambda>s. s - requested (map snd pairs) j) (stock db j)) \<and>
     orders_table db2 = orders_table db \<and>
     map item_response (filter (\<lambda>r. order_id r = oid) (order_items_table db2)) =
       map item_response (filter (\<lambda>r. order_id r = oid) (order_items_table db)) @ map fst pairs"
proof (induction pairs arbitrary: db k)
  case Nil
  then show ?case by (simp add: requested_def option.map_ident)
next
  case (Cons x pairs)
  obtain item_data item_request where x: "x = (item_data, item_request)" by (cases x)
  define db_item where "db_item =
     \<lparr>product_id = product_id item_data, quantity = OrderItemBase.quantity item_data,
      unit_price = unit_price item_data, discount_applied = discount_applied item_data,
      OrderItem.id' = new_item_id env k, order_id = oid\<rparr>"
  define db1 where "db1 = db\<lparr>order_items_table := order_items_table db @ [db_item]\<rparr>"
  from Cons.prems x obtain product where q: "query_product db (product_id item_request) = Some product"
    by auto
  have pid: "Product.id' product = product_id item_request" using q by (rule query_product_id)
  define db' where "db' = set_inventory (product_id item_request)
      (inventory product - OrderItemBase.quantity item_request) db1"
  have step: "add_order_items env oid k db (x # pairs) = add_order_items env oid (Suc k) db' pairs"
    using q pid by (simp add: x db'_def db1_def db_item_def Let_def)
  have st': "\<And>j. stock db' j =
      (if j = product_id item_request then Some (inventory product - OrderItemBase.quantity item_request)
       else stock db j)"
    using q by (simp add: db'_def db1_def stock_set_inventory) (simp add: stock_def)
  have ex: "\<forall>y\<in>set pairs. query_product db' (product_id (snd y)) \<noteq> None"
  proof
    fix y assume "y \<in> set pairs"
    then have "query_product db (product_id (snd y)) \<noteq> None" using Cons.prems by simp
    then have "stock db (product_id (snd y)) \<noteq> None" by (simp add: stock_None_iff)
    then have "stock db' (product_id (snd y)) \<noteq> None" by (simp add: st')
    then show "query_product db' (product_id (snd y)) \<noteq> None" by (simp add: stock_None_iff)
  qed
  from Cons.IH [OF ex, of "Suc k"] obtain db2 where
    r: "add_order_items env oid (Suc k) db' pairs = Inr db2" and
    s: "\<And>j. stock db2 j = map_option (\<lambda>s. s - requested (map snd pairs) j) (stock db' j)" and
    o: "orders_table db2 = orders_table db'" and
    i: "map item_response (filter (\<lambda>r. order_id r = oid) (order_items_table db2)) =
       map item_response (filter (\<lambda>r. order_id r = oid) (order_items_table db')) @ map fst pairs"
    by blast
  have sq: "stock db (product_id item_request) = Some (inventory product)"
    using q by (simp add: stock_def)
  have s2: "stock db2 j = map_option (\<lambda>s. s - requested (map snd (x # pairs)) j) (stock db j)" for j
  proof (cases "j = product_id item_request")
    case True
    then show ?thesis by (simp add: s st' x requested_Cons sq)
  next
    case False
    then have "product_id item_request \<noteq> j" by blast
    with False show ?thesis by (simp add: s st' x requested_Cons)
  qed
  have o2: "orders_table db2 = orders_table db"
    by (simp add: o db'_def db1_def set_inventory_def)
  have ir: "item_response db_item = item_data"
    by (simp add: item_response_def db_item_def)
  have i2: "map item_response (filter (\<lambda>r. order_id r = oid) (order_items_table db2)) =
       map item_response (filter (\<lambda>r. order_id r = oid) (order_items_table db)) @ map fst (x # pairs)"
    by (simp add: i db'_def db1_def set_inventory_def x ir) (simp add: db_item_def)
  show ?case using step r s2 o2 i2 by simp
qed

section \<open>The first and the second loop of \<open>create_order\<close>\<close>

lemma price_items_Inr:
  "price_items F cfg db xs acc st = Inr (its, sub) \<Longrightarrow>
   \<exists>new. its = acc @ new \<and>
     list_all2 (\<lambda>item line. \<exists>product. query_product db (product_id item) = Some product \<and>
                  OrderItemBase.quantity item \<le> inventory product \<and>
                  priced_as F cfg product item line) xs new \<and>
     sub = foldl (\<lambda>s line. fadd F s (fmul F (unit_price line) (float_of_int F (OrderItemBase.quantity line))))
             st new"
proof (induction xs arbitrary: acc st)
  case Nil
  then show ?case by simp
next
  case (Cons item rest)
  from Cons.prems obtain product where
    q: "query_product db (product_id item) = Some product"
    by (cases "query_product db (product_id item)") auto
  from Cons.prems q have enough: "OrderItemBase.quantity item \<le> inventory product"
    by (cases "inventory product < OrderItemBase.quantity item") auto
  define line :: "'a OrderItemResponse" where "line =
     \<lparr>product_id = product_id item, quantity = OrderItemBase.quantity item,
      unit_price = (if BULK_DISCOUNT_THRESHOLD cfg \<le> OrderItemBase.quantity item
                    then discounted_price F cfg (price product) else price product),
      discount_applied = (BULK_DISCOUNT_THRESHOLD cfg \<le> OrderItemBase.quantity item)\<rparr>"
  have rec: "price_items F cfg db rest (acc @ [line])
               (fadd F st (fmul F (unit_price line) (float_of_int F (OrderItemBase.quantity item))))
             = Inr (its, sub)"
    using Cons.prems q enough
    by (cases "BULK_DISCOUNT_THRESHOLD cfg \<le> OrderItemBase.quantity item")
       (simp_all add: Let_def line_def discounted_price_def)
  from Cons.IH [OF rec] obtain new where
    a: "its = (acc @ [line]) @ new" and
    b: "list_all2 (\<lambda>item line. \<exists>product. query_product db (product_id item) = Some product \<and>
                  OrderItemBase.quantity item \<le> inventory product \<and>
                  priced_as F cfg product item line) rest new" and
    c: "sub = foldl (\<lambda>s line. fadd F s (fmul F (unit_price line) (float_of_int F (OrderItemBase.quantity line))))
             (fadd F st (fmul F (unit_price line) (float_of_int F (OrderItemBase.quantity item)))) new"
    by blast
  have pl: "priced_as F cfg product item line"
    by (simp add: priced_as_def line_def)
  have ql: "OrderItemBase.quantity line = OrderItemBase.quantity item"
    by (simp add: line_def)
  show ?case
  proof (intro exI conjI)
    show "its = acc @ (line # new)" using a by simp
    show "list_all2 (\<lambda>item line. \<exists>product. query_product db (product_id item) = Some product \<and>
                  OrderItemBase.quantity item \<le> inventory product \<and>
                  priced_as F cfg product item line) (item # rest) (line # new)"
      using b q enough pl by auto
    show "sub = foldl (\<lambda>s line. fadd F s (fmul F (unit_price line) (float_of_int F (OrderItemBase.quantity line))))
             st (line # new)"
      using c by (simp add: ql)
  qed
qed

lemma price_items_ok:
  "list_all (line_ok db) xs \<Longrightarrow> \<exists>r. price_items F cfg db xs acc st = Inr r"
proof (induction xs arbitrary: acc st)
  case Nil
  then show ?case by simp
next
  case (Cons item rest)
  then show ?case
    by (cases "query_product db (product_id item)") (auto simp: line_ok_def Let_def)
qed

lemma price_items_skip_ok:
  "list_all (line_ok db) pre \<Longrightarrow>
   \<exists>acc' st'. price_items F cfg db (pre @ rest) acc st = price_items F cfg db rest acc' st'"
proof (induction pre arbitrary: acc st)
  case Nil
  then show ?case by auto
next
  case (Cons item pre)
  then show ?case
    by (cases "query_product db (product_id item)") (auto simp: line_ok_def Let_def)
qed

lemma price_items_missing:
  assumes "list_all (line_ok db) pre" and "query_product db (product_id item) = None"
  shows "price_items F cfg db (pre @ item # post) acc st =
           Inl (HTTPException 404 (ProductWithIdNotFound (product_id item)))"
proof -
  from price_items_skip_ok [OF assms(1)] obtain acc' st' where
    "price_items F cfg db (pre @ item # post) acc st = price_items F cfg db (item # post) acc' st'"
    by blast
  then show ?thesis using assms(2) by simp
qed

lemma price_items_insufficient:
  assumes "list_all (line_ok db) pre" and "query_product db (product_id item) = Some product"
    and "inventory product < OrderItemBase.quantity item"
  shows "price_items F cfg db (pre @ item # post) acc st =
           Inl (HTTPException 400
                  (NotEnoughInventory (name product) (OrderItemBase.quantity item) (inventory product)))"
proof -
  from price_items_skip_ok [OF assms(1)] obtain acc' st' where
    "price_items F cfg db (pre @ item # post) acc st = price_items F cfg db (item # post) acc' st'"
    by blast
  then show ?thesis using assms(2,3) by simp
qed

lemma price_items_Inr_line_ok:
  "price_items F cfg db xs acc st = Inr r \<Longrightarrow> list_all (line_ok db) xs"
proof (induction xs arbitrary: acc st)
  case Nil
  then show ?case by simp
next
  case (Cons item rest)
  then show ?case
    by (cases "query_product db (product_id item)")
       (auto simp: line_ok_def Let_def split: if_splits)
qed

lemma create_order_failure_keeps_db:
  "fst (create_order F cfg env db order) = Inl e \<Longrightarrow> snd (create_order F cfg env db order) = db"
  by (auto simp: create_order_def Let_def split: sum.splits prod.splits commit_result.splits)

lemma create_order_priced:
  assumes p: "price_items F cfg db (OrderCreate.items order) [] (float_of_int F 0) = Inr (lines, sub)"
  shows "\<exists>db2.
     create_order F cfg env db order =
       (case commit_outcome env of
          Committed \<Rightarrow> (Inr (build_response db2 (new_order_row F cfg env order sub)), db2)
        | IntegrityError e \<Rightarrow> (Inl (HTTPException 400 (DatabaseError e)), db)
        | OperationalError e \<Rightarrow> (Inl (Unhandled e), db)) \<and>
     add_order_items env (new_order_id env) 0
       (db\<lparr>orders_table := orders_table db @ [new_order_row F cfg env order sub]\<rparr>)
       (zip lines (OrderCreate.items order)) = Inr db2 \<and>
     (\<forall>j. stock db2 j = map_option (\<lambda>s. s - requested (OrderCreate.items order) j) (stock db j)) \<and>
     orders_table db2 = orders_table db @ [new_order_row F cfg env order sub] \<and>
     map item_response (order_rows db2 (new_order_id env)) =
       map item_response (order_rows db (new_order_id env)) @ lines"
proof -
  from price_items_Inr [OF p] have
    l2: "list_all2 (\<lambda>item line. \<exists>product. query_product db (product_id item) = Some product \<and>
                  OrderItemBase.quantity item \<le> inventory product \<and>
                  priced_as F cfg product item line) (OrderCreate.items order) lines"
    by auto
  then have len: "length lines = length (OrderCreate.items order)"
    by (simp add: list_all2_lengthD)
  define row where "row = new_order_row F cfg env order sub"
  define db1 where "db1 = db\<lparr>orders_table := orders_table db @ [row]\<rparr>"
  define pairs where "pairs = zip lines (OrderCreate.items order)"
  have sn: "map snd pairs = OrderCreate.items order" and fs: "map fst pairs = lines"
    using len by (simp_all add: pairs_def)
  have ex: "\<forall>x\<in>set pairs. query_product db1 (product_id (snd x)) \<noteq> None"
  proof
    fix x assume "x \<in> set pairs"
    then have "snd x \<in> set (OrderCreate.items order)"
      unfolding pairs_def by (metis in_set_zipE prod.collapse)
    then obtain i where "i < length (OrderCreate.items order)" "OrderCreate.items order ! i = snd x"
      by (auto simp: in_set_conv_nth)
    with l2 show "query_product db1 (product_id (snd x)) \<noteq> None"
      by (auto simp: db1_def list_all2_conv_all_nth)
  qed
  from add_order_items_stock [OF ex, of env "new_order_id env" 0] obtain db2 where
    r: "add_order_items env (new_order_id env) 0 db1 pairs = Inr db2" and
    s: "\<And>j. stock db2 j = map_option (\<lambda>s. s - requested (map snd pairs) j) (stock db1 j)" and
    o: "orders_table db2 = orders_table db1" and
    i: "map item_response (filter (\<lambda>r. order_id r = new_order_id env) (order_items_table db2)) =
       map item_response (filter (\<lambda>r. order_id r = new_order_id env) (order_items_table db1)) @ map fst pairs"
    by blast
  have rid: "Order.id' row = new_order_id env" by (simp add: row_def new_order_row_def)
  have "create_order F cfg env db order =
       (case commit_outcome env of
          Committed \<Rightarrow> (Inr (build_response db2 row), db2)
        | IntegrityError e \<Rightarrow> (Inl (HTTPException 400 (DatabaseError e)), db)
        | OperationalError e \<Rightarrow> (Inl (Unhandled e), db))"
    using r rid unfolding create_order_def p pairs_def db1_def row_def new_order_row_def
    by (simp add: Let_def)
  moreover have "\<forall>j. stock db2 j = map_option (\<lambda>s. s - requested (OrderCreate.items order) j) (stock db j)"
    by (simp add: s sn db1_def)
  moreover have "orders_table db2 = orders_table db @ [row]"
    by (simp add: o db1_def)
  moreover have "map item_response (order_rows db2 (new_order_id env)) =
       map item_response (order_rows db (new_order_id env)) @ lines"
    using i by (simp add: order_rows_def fs db1_def)
  moreover note r
  ultimately show ?thesis unfolding row_def db1_def pairs_def by blast
qed

lemma create_order_Inr_priced:
  assumes "create_order F cfg env db order = (Inr resp, db')"
  shows "\<exists>lines sub. price_items F cfg db (OrderCreate.items order) [] (float_of_int F 0) = Inr (lines, sub)"
    and "commit_outcome env = Committed"
proof -
  show "\<exists>lines sub. price_items F cfg db (OrderCreate.items order) [] (float_of_int F 0) = Inr (lines, sub)"
    using assms
    by (cases "price_items F cfg db (OrderCreate.items order) [] (float_of_int F 0)")
       (auto simp: create_order_def)
  then obtain lines sub where
    p: "price_items F cfg db (OrderCreate.items order) [] (float_of_int F 0) = Inr (lines, sub)"
    by blast
  from create_order_priced [OF p, of env] assms show "commit_outcome env = Committed"
    by (cases "commit_outcome env") auto
qed

text \<open>Everything a successful call determines.\<close>

lemma create_order_Inr:
  assumes c: "create_order F cfg env db order = (Inr resp, db')"
  shows "\<exists>lines sub.
     price_items F cfg db (OrderCreate.items order) [] (float_of_int F 0) = Inr (lines, sub) \<and>
     resp = build_response db' (new_order_row F cfg env order sub) \<and>
     (\<forall>j. stock db' j = map_option (\<lambda>s. s - requested (OrderCreate.items order) j) (stock db j)) \<and>
     orders_table db' = orders_table db @ [new_order_row F cfg env order sub] \<and>
     map item_response (order_rows db' (new_order_id env)) =
       map item_response (order_rows db (new_order_id env)) @ lines"
proof -
  from create_order_Inr_priced [OF c] obtain lines sub where
    p: "price_items F cfg db (OrderCreate.items order) [] (float_of_int F 0) = Inr (lines, sub)"
    and k: "commit_outcome env = Committed"
    by blast
  from create_order_priced [OF p, of env] c k obtain db2 where
    "resp = build_response db2 (new_order_row F cfg env order sub)" "db' = db2"
    "\<forall>j. stock db2 j = map_option (\<lambda>s. s - requested (OrderCreate.items order) j) (stock db j)"
    "orders_table db2 = orders_table db @ [new_order_row F cfg env order sub]"
    "map item_response (order_rows db2 (new_order_id env)) =
       map item_response (order_rows db (new_order_id env)) @ lines"
    by auto
  with p show ?thesis by blast
qed

lemma price_items_products_cong:
  "products_table db1 = products_table db2 \<Longrightarrow>
   price_items F cfg db1 xs acc st = price_items F cfg db2 xs acc st"
  by (induction xs arbitrary: acc st)
     (simp_all add: query_product_def Let_def split: option.splits)

lemma add_order_items_products_cong:
  "products_table dba = products_table dbb \<Longrightarrow>
   add_order_items enva oida ka dba pairs = Inr da \<Longrightarrow>
   add_order_items envb oidb kb dbb pairs = Inr db' \<Longrightarrow>
   products_table da = products_table db'"
proof (induction pairs arbitrary: dba dbb ka kb)
  case Nil
  then show ?case by simp
next
  case (Cons x pairs)
  obtain item_data item_request where x: "x = (item_data, item_request)" by (cases x)
  have same: "query_product dba (product_id item_request) = query_product dbb (product_id item_request)"
    using Cons.prems(1) by (simp add: query_product_def)
  show ?case
  proof (cases "query_product dba (product_id item_request)")
    case None
    with Cons.prems(2) show ?thesis by (simp add: x Let_def)
  next
    case (Some product)
    have eq: "products_table (set_inventory (Product.id' product) v
                 (dba\<lparr>order_items_table := ta\<rparr>)) =
              products_table (set_inventory (Product.id' product) v
                 (dbb\<lparr>order_items_table := tb\<rparr>))" for v ta tb
      using Cons.prems(1) by (simp add: set_inventory_def)
    from Cons.prems(2,3) Some same show ?thesis
      by (simp add: x Let_def) (rule Cons.IH [OF eq])
  qed
qed


lemma create_order_pricing_error:
  "price_items F cfg db (OrderCreate.items order) [] (float_of_int F 0) = Inl e \<Longrightarrow>
   create_order F cfg env db order = (Inl e, db)"
  by (simp add: create_order_def)

text \<open>The first line of a list that fails a check, and the lines before it.\<close>

lemma first_failing_line:
  assumes "\<not> list_all (line_ok db) xs"
  shows "\<exists>ys x zs. xs = ys @ x # zs \<and> list_all (line_ok db) ys \<and> \<not> line_ok db x"
proof -
  from assms have "\<exists>x\<in>set xs. \<not> line_ok db x" by (simp add: list_all_iff)
  from split_list_first_prop [OF this] show ?thesis
    by (auto simp: list_all_iff)
qed

lemmas example_defs = example_config_def example_db_def example_env_def order_of_def exact_ops_def
lemmas run_defs = create_order_def query_product_def set_inventory_def Let_def
lemmas run2_defs = busy_db_def later_env_def jane_order_def

section \<open>Pricing\<close>

text \<open>
  C1. Each line of a successful order is priced from its own quantity alone: from the
  threshold on, the unit price is the catalog price times \<open>1 - BULK_DISCOUNT_PERCENT / 100\<close>
  and \<open>discount_applied\<close> is true; below it, the unit price is the catalog price and the
  flag is false. The response has one line per requested line, in request order.
\<close>

theorem create_order_bulk_discount:
  assumes "create_order F cfg env db order = (Inr resp, db')" and "order_id_unused db env"
  shows "length (OrderResponse.items resp) = length (OrderCreate.items order) \<and>
         (\<forall>i<length (OrderCreate.items order).
            \<exists>product. query_product db (product_id (OrderCreate.items order ! i)) = Some product \<and>
              priced_as F cfg product (OrderCreate.items order ! i) (OrderResponse.items resp ! i))"
proof -
  from create_order_Inr [OF assms(1)] obtain lines sub where
    p: "price_items F cfg db (OrderCreate.items order) [] (float_of_int F 0) = Inr (lines, sub)" and
    r: "resp = build_response db' (new_order_row F cfg env order sub)" and
    i: "map item_response (order_rows db' (new_order_id env)) =
          map item_response (order_rows db (new_order_id env)) @ lines"
    by blast
  have it: "OrderResponse.items resp = lines"
    using assms(2) by (simp add: r build_response_def new_order_row_def i order_id_unused_def)
  from price_items_Inr [OF p] have
    "list_all2 (\<lambda>item line. \<exists>product. query_product db (product_id item) = Some product \<and>
                  OrderItemBase.quantity item \<le> inventory product \<and>
                  priced_as F cfg product item line) (OrderCreate.items order) lines"
    by auto
  then show ?thesis
    unfolding it list_all2_conv_all_nth by auto
qed

theorem create_order_bulk_discount_witness:
  "order_id_unused example_db example_env \<and>
   (\<exists>resp db'.
      create_order exact_ops example_config example_env example_db (order_of [(1, 6), (2, 1)])
        = (Inr resp, db') \<and>
      OrderResponse.items resp =
        [\<lparr>product_id = 1, quantity = 6, unit_price = 9, discount_applied = True\<rparr>,
         \<lparr>product_id = 2, quantity = 1, unit_price = 20, discount_applied = False\<rparr>] \<and>
      length (OrderResponse.items resp) = length (OrderCreate.items (order_of [(1, 6), (2, 1)])) \<and>
      (\<forall>i<length (OrderCreate.items (order_of [(1, 6), (2, 1)])).
         \<exists>product.
           query_product example_db (product_id (OrderCreate.items (order_of [(1, 6), (2, 1)]) ! i))
             = Some product \<and>
           priced_as exact_ops example_config product
             (OrderCreate.items (order_of [(1, 6), (2, 1)]) ! i) (OrderResponse.items resp ! i)))"
proof -
  have u: "order_id_unused example_db example_env"
    by (simp add: order_id_unused_def order_rows_def example_defs)
  obtain resp db' where
    c: "create_order exact_ops example_config example_env example_db (order_of [(1, 6), (2, 1)])
          = (Inr resp, db')" and
    v: "OrderResponse.items resp =
        [\<lparr>product_id = 1, quantity = 6, unit_price = 9, discount_applied = True\<rparr>,
         \<lparr>product_id = 2, quantity = 1, unit_price = 20, discount_applied = False\<rparr>]"
    by (simp add: example_defs run_defs build_response_def order_rows_def item_response_def)
  from create_order_bulk_discount [OF c u] u c v show ?thesis by blast
qed

text \<open>
  C2. In a successful order the shipping fee is \<open>SHIPPING_FEE\<close> when the subtotal is
  strictly below \<open>FREE_SHIPPING_THRESHOLD\<close> and \<open>0.0\<close> otherwise (for a fee other than
  \<open>0.0\<close>: exactly when), the total is subtotal plus shipping fee, and the subtotal is the
  sum over the lines of unit price times quantity.
\<close>

theorem create_order_shipping_total:
  assumes "create_order F cfg env db order = (Inr resp, db')" and "order_id_unused db env"
  shows "shipping_fee resp =
           (if flt F (subtotal resp) (FREE_SHIPPING_THRESHOLD cfg) then SHIPPING_FEE cfg
            else float_of_int F 0) \<and>
         total_amount resp = fadd F (subtotal resp) (shipping_fee resp) \<and>
         subtotal resp = lines_total F (OrderResponse.items resp) \<and>
         (SHIPPING_FEE cfg \<noteq> float_of_int F 0 \<longrightarrow>
            (shipping_fee resp = SHIPPING_FEE cfg \<longleftrightarrow>
             flt F (subtotal resp) (FREE_SHIPPING_THRESHOLD cfg)))"
proof -
  from create_order_Inr [OF assms(1)] obtain lines sub where
    p: "price_items F cfg db (OrderCreate.items order) [] (float_of_int F 0) = Inr (lines, sub)" and
    r: "resp = build_response db' (new_order_row F cfg env order sub)" and
    i: "map item_response (order_rows db' (new_order_id env)) =
          map item_response (order_rows db (new_order_id env)) @ lines"
    by blast
  have it: "OrderResponse.items resp = lines"
    using assms(2) by (simp add: r build_response_def new_order_row_def i order_id_unused_def)
  have sub: "subtotal resp = sub"
    by (simp add: r build_response_def new_order_row_def)
  have fee: "shipping_fee resp =
      (if flt F sub (FREE_SHIPPING_THRESHOLD cfg) then SHIPPING_FEE cfg else float_of_int F 0)"
    by (simp add: r build_response_def new_order_row_def)
  have tot: "total_amount resp = fadd F sub (shipping_fee resp)"
    by (simp add: r build_response_def new_order_row_def)
  from price_items_Inr [OF p] have "sub = lines_total F lines"
    by (auto simp: lines_total_def)
  then show ?thesis
    using fee tot by (auto simp: sub it)
qed

theorem create_order_shipping_total_witness:
  "order_id_unused example_db example_env \<and>
   SHIPPING_FEE example_config \<noteq> float_of_int exact_ops 0 \<and>
   (\<exists>resp db'.
      create_order exact_ops example_config example_env example_db (order_of [(1, 2), (3, 3)])
        = (Inr resp, db') \<and>
      subtotal resp = 35 \<and> shipping_fee resp = 5 \<and> total_amount resp = 40 \<and>
      shipping_fee resp =
        (if flt exact_ops (subtotal resp) (FREE_SHIPPING_THRESHOLD example_config)
         then SHIPPING_FEE example_config else float_of_int exact_ops 0) \<and>
      total_amount resp = fadd exact_ops (subtotal resp) (shipping_fee resp) \<and>
      subtotal resp = lines_total exact_ops (OrderResponse.items resp) \<and>
      (shipping_fee resp = SHIPPING_FEE example_config \<longleftrightarrow>
       flt exact_ops (subtotal resp) (FREE_SHIPPING_THRESHOLD example_config)))"
proof -
  have u: "order_id_unused example_db example_env"
    by (simp add: order_id_unused_def order_rows_def example_defs)
  have f: "SHIPPING_FEE example_config \<noteq> float_of_int exact_ops 0"
    by (simp add: example_defs)
  obtain resp db' where
    c: "create_order exact_ops example_config example_env example_db (order_of [(1, 2), (3, 3)])
          = (Inr resp, db')" and
    v: "subtotal resp = 35" "shipping_fee resp = 5" "total_amount resp = 40"
    by (simp add: example_defs run_defs build_response_def)
  from create_order_shipping_total [OF c u] f u c v show ?thesis by blast
qed

section \<open>Orders that fail\<close>

text \<open>
  C4. A request with a line whose product is not in the catalog fails, and the committed
  database is the one before the call: no order, no order line, no stock change. The
  error is the 404 "Product with ID ... not found" of that line when every line before
  it passes both checks, so that the line is the first to fail. Otherwise, the line
  being the first whose product is missing, the first line to fail is a line before it
  that asks for more than the stock of its product, and the error is the 400 "Not enough
  inventory for product ..." of that line.
\<close>

theorem create_order_product_not_found:
  assumes "OrderCreate.items order = pre @ item # post"
    and "query_product db (product_id item) = None"
  shows "(list_all (line_ok db) pre \<longrightarrow>
            create_order F cfg env db order =
              (Inl (HTTPException 404 (ProductWithIdNotFound (product_id item))), db)) \<and>
         (\<not> list_all (line_ok db) pre \<and>
          (\<forall>x\<in>set pre. query_product db (product_id x) \<noteq> None) \<longrightarrow>
            (\<exists>before short after product.
               pre = before @ short # after \<and> list_all (line_ok db) before \<and>
               query_product db (product_id short) = Some product \<and>
               inventory product < OrderItemBase.quantity short \<and>
               create_order F cfg env db order =
                 (Inl (HTTPException 400
                         (NotEnoughInventory (name product) (OrderItemBase.quantity short)
                            (inventory product))), db))) \<and>
         (\<exists>e. create_order F cfg env db order = (Inl e, db))"
proof -
  have a: "create_order F cfg env db order =
              (Inl (HTTPException 404 (ProductWithIdNotFound (product_id item))), db)"
    if "list_all (line_ok db) pre"
    using price_items_missing [OF that assms(2)] assms(1)
    by (simp add: create_order_pricing_error)
  have b: "\<exists>before short after product.
               pre = before @ short # after \<and> list_all (line_ok db) before \<and>
               query_product db (product_id short) = Some product \<and>
               inventory product < OrderItemBase.quantity short \<and>
               create_order F cfg env db order =
                 (Inl (HTTPException 400
                         (NotEnoughInventory (name product) (OrderItemBase.quantity short)
                            (inventory product))), db)"
    if n: "\<not> list_all (line_ok db) pre"
      and ex: "\<forall>x\<in>set pre. query_product db (product_id x) \<noteq> None"
  proof -
    from first_failing_line [OF n] obtain before short after where
      s: "pre = before @ short # after" and ok: "list_all (line_ok db) before"
      and bad: "\<not> line_ok db short"
      by blast
    from ex s obtain product where q: "query_product db (product_id short) = Some product"
      by auto
    from bad q have lt: "inventory product < OrderItemBase.quantity short"
      by (simp add: line_ok_def)
    have "OrderCreate.items order = before @ short # (after @ item # post)"
      using assms(1) s by simp
    with price_items_insufficient [OF ok q lt, of F cfg "after @ item # post" "[]" "float_of_int F 0"]
    have "create_order F cfg env db order =
            (Inl (HTTPException 400
                    (NotEnoughInventory (name product) (OrderItemBase.quantity short)
                       (inventory product))), db)"
      by (simp add: create_order_pricing_error)
    with s ok q lt show ?thesis by blast
  qed
  have "\<not> list_all (line_ok db) (OrderCreate.items order)"
    using assms by (simp add: line_ok_def)
  then obtain e where "price_items F cfg db (OrderCreate.items order) [] (float_of_int F 0) = Inl e"
    using price_items_Inr_line_ok [of F cfg db "OrderCreate.items order" "[]" "float_of_int F 0"]
    by (cases "price_items F cfg db (OrderCreate.items order) [] (float_of_int F 0)") auto
  then have "\<exists>e. create_order F cfg env db order = (Inl e, db)"
    by (auto dest: create_order_pricing_error)
  with a b show ?thesis by blast
qed

theorem create_order_product_not_found_counterexample:
  "query_product example_db 999 = None \<and>
   create_order exact_ops example_config example_env example_db (order_of [(2, 20), (999, 1)])
     = (Inl (HTTPException 400 (NotEnoughInventory ''Test Product 2'' 20 15)), example_db) \<and>
   HTTPException 400 (NotEnoughInventory ''Test Product 2'' 20 15)
     \<noteq> HTTPException 404 (ProductWithIdNotFound 999)"
  by (simp add: example_defs create_order_def query_product_def)

theorem create_order_product_not_found_witness:
  "OrderCreate.items (order_of [(1, 2), (999, 1), (2, 20)])
     = [\<lparr>product_id = 1, quantity = 2\<rparr>] @ \<lparr>product_id = 999, quantity = 1\<rparr>
         # [\<lparr>product_id = 2, quantity = 20\<rparr>] \<and>
   query_product example_db (product_id \<lparr>product_id = 999, quantity = 1\<rparr>) = None \<and>
   list_all (line_ok example_db) [\<lparr>product_id = 1, quantity = 2\<rparr>] \<and>
   create_order exact_ops example_config example_env example_db
       (order_of [(1, 2), (999, 1), (2, 20)])
     = (Inl (HTTPException 404 (ProductWithIdNotFound 999)), example_db) \<and>
   OrderCreate.items (order_of [(1, 2), (2, 20), (999, 1)])
     = [\<lparr>product_id = 1, quantity = 2\<rparr>, \<lparr>product_id = 2, quantity = 20\<rparr>]
         @ \<lparr>product_id = 999, quantity = 1\<rparr> # [] \<and>
   \<not> list_all (line_ok example_db)
       [\<lparr>product_id = 1, quantity = 2\<rparr>, \<lparr>product_id = 2, quantity = 20\<rparr>] \<and>
   query_product example_db 1 \<noteq> None \<and> query_product example_db 2 \<noteq> None \<and>
   (\<exists>before short after product.
      [\<lparr>product_id = 1, quantity = 2\<rparr>, \<lparr>product_id = 2, quantity = 20\<rparr>]
        = before @ short # after \<and>
      list_all (line_ok example_db) before \<and>
      query_product example_db (product_id short) = Some product \<and>
      inventory product < OrderItemBase.quantity short \<and>
      create_order exact_ops example_config example_env example_db
          (order_of [(1, 2), (2, 20), (999, 1)])
        = (Inl (HTTPException 400
                  (NotEnoughInventory (name product) (OrderItemBase.quantity short)
                     (inventory product))), example_db)) \<and>
   create_order exact_ops example_config example_env example_db
       (order_of [(1, 2), (2, 20), (999, 1)])
     = (Inl (HTTPException 400 (NotEnoughInventory ''Test Product 2'' 20 15)), example_db)"
proof -
  have i: "OrderCreate.items (order_of [(1, 2), (999, 1), (2, 20)])
     = [\<lparr>product_id = 1, quantity = 2\<rparr>] @ \<lparr>product_id = 999, quantity = 1\<rparr>
         # [\<lparr>product_id = 2, quantity = 20\<rparr>]"
    by (simp add: order_of_def)
  have q: "query_product example_db (product_id \<lparr>product_id = 999, quantity = 1\<rparr>) = None"
    by (simp add: query_product_def example_defs)
  have l: "list_all (line_ok example_db) [\<lparr>product_id = 1, quantity = 2\<rparr>]"
    by (simp add: line_ok_def query_product_def example_defs)
  have i2: "OrderCreate.items (order_of [(1, 2), (2, 20), (999, 1)])
     = [\<lparr>product_id = 1, quantity = 2\<rparr>, \<lparr>product_id = 2, quantity = 20\<rparr>]
         @ \<lparr>product_id = 999, quantity = 1\<rparr> # []"
    by (simp add: order_of_def)
  have n: "\<not> list_all (line_ok example_db)
       [\<lparr>product_id = 1, quantity = 2\<rparr>, \<lparr>product_id = 2, quantity = 20\<rparr>]"
    by (simp add: line_ok_def query_product_def example_defs)
  have e': "query_product example_db 1 \<noteq> None" "query_product example_db 2 \<noteq> None"
    by (simp_all add: query_product_def example_defs)
  then have e: "\<forall>x\<in>set [\<lparr>product_id = 1, quantity = 2\<rparr>, \<lparr>product_id = 2, quantity = 20\<rparr>].
      query_product example_db (product_id x) \<noteq> None"
    by simp
  have v: "create_order exact_ops example_config example_env example_db
       (order_of [(1, 2), (2, 20), (999, 1)])
     = (Inl (HTTPException 400 (NotEnoughInventory ''Test Product 2'' 20 15)), example_db)"
    by (simp add: example_defs create_order_def query_product_def)
  from create_order_product_not_found [OF i q, of exact_ops example_config example_env] l
  have a: "create_order exact_ops example_config example_env example_db
       (order_of [(1, 2), (999, 1), (2, 20)])
     = (Inl (HTTPException 404 (ProductWithIdNotFound 999)), example_db)"
    by simp
  from create_order_product_not_found [OF i2 q, of exact_ops example_config example_env] n e
  have b: "\<exists>before short after product.
      [\<lparr>product_id = 1, quantity = 2\<rparr>, \<lparr>product_id = 2, quantity = 20\<rparr>]
        = before @ short # after \<and>
      list_all (line_ok example_db) before \<and>
      query_product example_db (product_id short) = Some product \<and>
      inventory product < OrderItemBase.quantity short \<and>
      create_order exact_ops example_config example_env example_db
          (order_of [(1, 2), (2, 20), (999, 1)])
        = (Inl (HTTPException 400
                  (NotEnoughInventory (name product) (OrderItemBase.quantity short)
                     (inventory product))), example_db)"
    by blast
  from i q l a i2 n e' b v show ?thesis by blast
qed

text \<open>
  C5. A line that is reached (every line before it passes both checks) and asks for more
  than the stock of its product makes the order fail with the 400 "Not enough inventory
  for product ..." that carries the product's name, the requested quantity and the
  available stock; the committed database is the one before the call.
\<close>

theorem create_order_insufficient_inventory:
  assumes "OrderCreate.items order = pre @ item # post"
    and "list_all (line_ok db) pre"
    and "query_product db (product_id item) = Some product"
    and "inventory product < OrderItemBase.quantity item"
  shows "create_order F cfg env db order =
           (Inl (HTTPException 400
                   (NotEnoughInventory (name product) (OrderItemBase.quantity item)
                      (inventory product))), db)"
  using price_items_insufficient [OF assms(2,3,4)] assms(1)
  by (simp add: create_order_pricing_error)

theorem create_order_insufficient_inventory_counterexample:
  "fst (create_order exact_ops example_config example_env twin_db (order_of [(1, 6)]))
     = Inl (HTTPException 400 (NotEnoughInventory ''Widget'' 6 5)) \<and>
   fst (create_order exact_ops example_config example_env twin_db (order_of [(2, 6)]))
     = Inl (HTTPException 400 (NotEnoughInventory ''Widget'' 6 5))"
  by (simp add: twin_db_def example_defs create_order_def query_product_def)

theorem create_order_insufficient_inventory_witness:
  "OrderCreate.items (order_of [(1, 2), (2, 20)])
     = [\<lparr>product_id = 1, quantity = 2\<rparr>] @ \<lparr>product_id = 2, quantity = 20\<rparr> # [] \<and>
   list_all (line_ok example_db) [\<lparr>product_id = 1, quantity = 2\<rparr>] \<and>
   query_product example_db 2
     = Some \<lparr>name = ''Test Product 2'', description = ''Description 2'', price = 20,
             inventory = 15, Product.id' = 2\<rparr> \<and>
   create_order exact_ops example_config example_env example_db (order_of [(1, 2), (2, 20)])
     = (Inl (HTTPException 400 (NotEnoughInventory ''Test Product 2'' 20 15)), example_db)"
proof -
  have i: "OrderCreate.items (order_of [(1, 2), (2, 20)])
     = [\<lparr>product_id = 1, quantity = 2\<rparr>] @ \<lparr>product_id = 2, quantity = 20\<rparr> # []"
    by (simp add: order_of_def)
  have l: "list_all (line_ok example_db) [\<lparr>product_id = 1, quantity = 2\<rparr>]"
    by (simp add: line_ok_def query_product_def example_defs)
  have q: "query_product example_db (product_id \<lparr>product_id = 2, quantity = 20\<rparr>)
     = Some \<lparr>name = ''Test Product 2'', description = ''Description 2'', price = 20,
             inventory = 15, Product.id' = 2\<rparr>"
    by (simp add: query_product_def example_defs)
  have lt: "inventory \<lparr>name = ''Test Product 2'', description = ''Description 2'', price = 20 :: rat,
             inventory = 15, Product.id' = 2\<rparr> < OrderItemBase.quantity \<lparr>product_id = 2, quantity = 20\<rparr>"
    by simp
  from create_order_insufficient_inventory [OF i l q lt, of exact_ops example_config example_env] i l q
  show ?thesis by simp
qed

text \<open>
  C8. When every line passes both checks and the commit raises an IntegrityError, the
  call rolls back, so the committed database is the one before the call, and the caller
  receives the 400 "Database error: ...".
\<close>

theorem create_order_integrity_error:
  assumes "list_all (line_ok db) (OrderCreate.items order)"
    and "commit_outcome env = IntegrityError e"
  shows "create_order F cfg env db order = (Inl (HTTPException 400 (DatabaseError e)), db)"
proof -
  from price_items_ok [OF assms(1)] obtain lines sub where
    "price_items F cfg db (OrderCreate.items order) [] (float_of_int F 0) = Inr (lines, sub)"
    by fastforce
  from create_order_priced [OF this, of env] assms(2) show ?thesis by auto
qed

theorem create_order_integrity_error_counterexample:
  "commit_outcome failing_env = IntegrityError ''duplicate key'' \<and>
   create_order exact_ops example_config failing_env example_db (order_of [(1, 2)])
     = (Inl (HTTPException 400 (DatabaseError ''duplicate key'')), example_db) \<and>
   \<not> is_server_error (HTTPException 400 (DatabaseError ''duplicate key''))"
  by (simp add: failing_env_def example_defs run_defs)

theorem create_order_integrity_error_witness:
  "list_all (line_ok example_db) (OrderCreate.items (order_of [(1, 2), (3, 3)])) \<and>
   commit_outcome failing_env = IntegrityError ''duplicate key'' \<and>
   create_order exact_ops example_config failing_env example_db (order_of [(1, 2), (3, 3)])
     = (Inl (HTTPException 400 (DatabaseError ''duplicate key'')), example_db)"
proof -
  have l: "list_all (line_ok example_db) (OrderCreate.items (order_of [(1, 2), (3, 3)]))"
    by (simp add: line_ok_def query_product_def example_defs)
  have c: "commit_outcome failing_env = IntegrityError ''duplicate key''"
    by (simp add: failing_env_def)
  from create_order_integrity_error [OF l c, of exact_ops example_config] l c show ?thesis by simp
qed

section \<open>Stock\<close>

text \<open>
  C6. After a successful order every product's stock is its prior stock less the quantity
  the order requests of it: \<open>s - q\<close> for a product on one line of quantity \<open>q\<close>, and
  unchanged for a product on no line.
\<close>

theorem create_order_stock:
  assumes "create_order F cfg env db order = (Inr resp, db')"
  shows "(\<forall>i. stock db' i =
             map_option (\<lambda>s. s - requested (OrderCreate.items order) i) (stock db i)) \<and>
         (\<forall>i s item. stock db i = Some s \<and>
             filter (\<lambda>x. product_id x = i) (OrderCreate.items order) = [item] \<longrightarrow>
             stock db' i = Some (s - OrderItemBase.quantity item)) \<and>
         (\<forall>i. i \<notin> product_id ` set (OrderCreate.items order) \<longrightarrow> stock db' i = stock db i)"
proof -
  from create_order_Inr [OF assms] have
    s: "\<And>j. stock db' j = map_option (\<lambda>s. s - requested (OrderCreate.items order) j) (stock db j)"
    by blast
  have none: "requested (OrderCreate.items order) i = 0"
    if "i \<notin> product_id ` set (OrderCreate.items order)" for i
  proof -
    from that have "filter (\<lambda>item. product_id item = i) (OrderCreate.items order) = []"
      by (auto simp: filter_empty_conv)
    then show ?thesis by (simp add: requested_def)
  qed
  show ?thesis
  proof (intro conjI allI impI)
    fix i
    show "stock db' i = map_option (\<lambda>s. s - requested (OrderCreate.items order) i) (stock db i)"
      by (rule s)
  next
    fix i s item
    assume "stock db i = Some s \<and> filter (\<lambda>x. product_id x = i) (OrderCreate.items order) = [item]"
    then show "stock db' i = Some (s - OrderItemBase.quantity item)"
      by (simp add: s requested_def)
  next
    fix i assume "i \<notin> product_id ` set (OrderCreate.items order)"
    then show "stock db' i = stock db i"
      by (simp add: s none option.map_ident)
  qed
qed

theorem create_order_stock_witness:
  "\<exists>resp db'.
      create_order exact_ops example_config example_env example_db (order_of [(1, 2), (3, 3)])
        = (Inr resp, db') \<and>
      stock example_db 1 = Some 20 \<and>
      filter (\<lambda>x. product_id x = 1) (OrderCreate.items (order_of [(1, 2), (3, 3)]))
        = [\<lparr>product_id = 1, quantity = 2\<rparr>] \<and>
      2 \<notin> product_id ` set (OrderCreate.items (order_of [(1, 2), (3, 3)])) \<and>
      stock db' 1 = Some 18 \<and> stock db' 2 = Some 15 \<and> stock db' 3 = Some 47"
proof -
  obtain resp db' where
    c: "create_order exact_ops example_config example_env example_db (order_of [(1, 2), (3, 3)])
          = (Inr resp, db')"
    by (simp add: example_defs run_defs)
  have s: "stock example_db 1 = Some 20" "stock example_db 2 = Some 15" "stock example_db 3 = Some 50"
    by (simp_all add: stock_def query_product_def example_defs)
  have f: "filter (\<lambda>x. product_id x = 1) (OrderCreate.items (order_of [(1, 2), (3, 3)]))
        = [\<lparr>product_id = 1, quantity = 2\<rparr>]"
    by (simp add: order_of_def)
  have n: "2 \<notin> product_id ` set (OrderCreate.items (order_of [(1, 2), (3, 3)]))"
    by (simp add: order_of_def)
  have r3: "requested (OrderCreate.items (order_of [(1, 2), (3, 3)])) 3 = 3"
    by (simp add: requested_def order_of_def)
  from create_order_stock [OF c] have
    a: "\<And>i. stock db' i =
          map_option (\<lambda>s. s - requested (OrderCreate.items (order_of [(1, 2), (3, 3)])) i)
            (stock example_db i)" and
    b: "\<And>i s item. stock example_db i = Some s \<and>
          filter (\<lambda>x. product_id x = i) (OrderCreate.items (order_of [(1, 2), (3, 3)])) = [item]
          \<Longrightarrow> stock db' i = Some (s - OrderItemBase.quantity item)" and
    d: "\<And>i. i \<notin> product_id ` set (OrderCreate.items (order_of [(1, 2), (3, 3)]))
          \<Longrightarrow> stock db' i = stock example_db i"
    by blast+
  have "stock db' 1 = Some 18" using b [of 1 20 "\<lparr>product_id = 1, quantity = 2\<rparr>"] s f by simp
  moreover have "stock db' 2 = Some 15" using d [OF n] s by simp
  moreover have "stock db' 3 = Some 47" using a [of 3] s r3 by simp
  ultimately show ?thesis using c s f n by blast
qed

text \<open>
  C3. The stock of every product is to be at or above zero after every operation.
  \<open>create_order\<close> does not keep this: on a catalog whose stocks are all at or above
  zero, a request that passes the schema, with two lines of three units of one product
  of which five are in stock, succeeds and leaves that product with stock \<open>-1\<close>. Each
  line passes the inventory check of the first loop, which compares against the stock
  before the order; the second loop then takes three units off twice.
\<close>

theorem create_order_negative_stock:
  "stock_nonneg twin_db \<and> stock twin_db 1 = Some 5 \<and>
   items_valid (order_of [(1, 3), (1, 3)]) \<and>
   \<not> isl (fst (create_order exact_ops example_config example_env twin_db (order_of [(1, 3), (1, 3)]))) \<and>
   stock (snd (create_order exact_ops example_config example_env twin_db (order_of [(1, 3), (1, 3)]))) 1
     = Some (- 1) \<and>
   \<not> stock_nonneg (snd (create_order exact_ops example_config example_env twin_db
                          (order_of [(1, 3), (1, 3)])))"
  by (simp add: stock_nonneg_def items_valid_def stock_def twin_db_def example_defs run_defs)

text \<open>
  The other writers keep the stock at or above zero, and so does \<open>create_order\<close> when
  no two lines name the same product.
\<close>

lemma write_inventory_nonneg:
  "0 \<le> v \<Longrightarrow> list_all (\<lambda>p. 0 \<le> inventory p) ps \<Longrightarrow>
   list_all (\<lambda>p. 0 \<le> inventory p) (write_inventory i v ps)"
  by (induction ps) auto

lemma update_product_inventory_stock_nonneg:
  "stock_nonneg db \<Longrightarrow> stock_nonneg (snd (update_product_inventory env db pid upd))"
  by (auto simp: update_product_inventory_def stock_nonneg_def set_inventory_def Let_def
        write_inventory_nonneg split: option.splits commit_result.splits)

lemma create_product_stock_nonneg:
  "stock_nonneg db \<Longrightarrow> 0 \<le> inventory product \<Longrightarrow>
   stock_nonneg (snd (create_product env db product))"
  by (auto simp: create_product_def stock_nonneg_def Let_def split: commit_result.splits)

lemma add_order_items_stock_nonneg:
  "distinct (map (\<lambda>x. product_id (snd x)) pairs) \<Longrightarrow>
   \<forall>x\<in>set pairs. line_ok db (snd x) \<Longrightarrow> stock_nonneg db \<Longrightarrow>
   add_order_items env oid k db pairs = Inr db2 \<Longrightarrow> stock_nonneg db2"
proof (induction pairs arbitrary: db k)
  case Nil
  then show ?case by simp
next
  case (Cons x pairs)
  obtain item_data item_request where x: "x = (item_data, item_request)" by (cases x)
  from Cons.prems(2) x obtain product where
    q: "query_product db (product_id item_request) = Some product" and
    enough: "OrderItemBase.quantity item_request \<le> inventory product"
    by (auto simp: line_ok_def split: option.splits)
  have pid: "Product.id' product = product_id item_request" using q by (rule query_product_id)
  define db_item where "db_item =
     \<lparr>product_id = product_id item_data, quantity = OrderItemBase.quantity item_data,
      unit_price = unit_price item_data, discount_applied = discount_applied item_data,
      OrderItem.id' = new_item_id env k, order_id = oid\<rparr>"
  define db' where "db' = set_inventory (product_id item_request)
      (inventory product - OrderItemBase.quantity item_request)
      (db\<lparr>order_items_table := order_items_table db @ [db_item]\<rparr>)"
  have step: "add_order_items env oid (Suc k) db' pairs = Inr db2"
    using Cons.prems(4) q pid by (simp add: x db'_def db_item_def Let_def)
  have nn: "stock_nonneg db'"
    using Cons.prems(3) enough
    by (simp add: db'_def stock_nonneg_def set_inventory_def write_inventory_nonneg)
  have ok: "\<forall>y\<in>set pairs. line_ok db' (snd y)"
  proof
    fix y assume y: "y \<in> set pairs"
    then have "product_id (snd y) \<noteq> product_id item_request"
      using Cons.prems(1) x y by force
    then have "query_product db' (product_id (snd y)) = query_product db (product_id (snd y))"
      by (simp add: db'_def set_inventory_def query_product_def find_write_inventory)
    moreover have "line_ok db (snd y)" using Cons.prems(2) y by simp
    ultimately show "line_ok db' (snd y)" by (simp add: line_ok_def)
  qed
  from Cons.prems(1) have "distinct (map (\<lambda>x. product_id (snd x)) pairs)" by simp
  from Cons.IH [OF this ok nn step] show ?case .
qed

lemma create_order_stock_nonneg:
  assumes "stock_nonneg db" and "distinct (map product_id (OrderCreate.items order))"
  shows "stock_nonneg (snd (create_order F cfg env db order))"
proof (cases "price_items F cfg db (OrderCreate.items order) [] (float_of_int F 0)")
  case (Inl e)
  then show ?thesis using assms(1) by (simp add: create_order_pricing_error)
next
  case (Inr r)
  obtain lines sub where r: "r = (lines, sub)" by (cases r)
  have p: "price_items F cfg db (OrderCreate.items order) [] (float_of_int F 0) = Inr (lines, sub)"
    using Inr r by simp
  from price_items_Inr [OF p] have "length lines = length (OrderCreate.items order)"
    by (auto dest: list_all2_lengthD)
  then have sn: "map snd (zip lines (OrderCreate.items order)) = OrderCreate.items order"
    by simp
  from price_items_Inr_line_ok [OF p] have ok: "list_all (line_ok db) (OrderCreate.items order)" .
  define db1 where "db1 = db\<lparr>orders_table := orders_table db @ [new_order_row F cfg env order sub]\<rparr>"
  from create_order_priced [OF p, of env] obtain db2 where
    c: "create_order F cfg env db order =
       (case commit_outcome env of
          Committed \<Rightarrow> (Inr (build_response db2 (new_order_row F cfg env order sub)), db2)
        | IntegrityError e \<Rightarrow> (Inl (HTTPException 400 (DatabaseError e)), db)
        | OperationalError e \<Rightarrow> (Inl (Unhandled e), db))" and
    a: "add_order_items env (new_order_id env) 0 db1 (zip lines (OrderCreate.items order)) = Inr db2"
    unfolding db1_def by blast
  have "map (\<lambda>x. product_id (snd x)) (zip lines (OrderCreate.items order)) =
        map product_id (map snd (zip lines (OrderCreate.items order)))"
    by (simp only: map_map comp_def)
  then have d: "distinct (map (\<lambda>x. product_id (snd x)) (zip lines (OrderCreate.items order)))"
    using assms(2) sn by simp
  have l: "\<forall>x\<in>set (zip lines (OrderCreate.items order)). line_ok db1 (snd x)"
  proof
    fix x assume "x \<in> set (zip lines (OrderCreate.items order))"
    then have "snd x \<in> set (OrderCreate.items order)" by (metis in_set_zipE prod.collapse)
    with ok have "line_ok db (snd x)" by (simp add: list_all_iff)
    then show "line_ok db1 (snd x)" by (simp add: line_ok_def db1_def)
  qed
  have n1: "stock_nonneg db1" using assms(1) by (simp add: stock_nonneg_def db1_def)
  from add_order_items_stock_nonneg [OF d l n1 a] have "stock_nonneg db2" .
  then show ?thesis using assms(1) by (cases "commit_outcome env") (simp_all add: c)
qed

section \<open>Inventory adjustment\<close>

text \<open>
  C7. \<open>update_product_inventory\<close> answers 404 when no product has the id; 400, the
  database unchanged, when the stock plus the change is below zero; and otherwise, when
  the store commits, returns the product with stock plus change as its new stock, the
  stock of every other product unchanged.
\<close>

theorem update_product_inventory_cases:
  "(query_product db pid = None \<longrightarrow>
      update_product_inventory env db pid upd = (Inl (HTTPException 404 ProductNotFound), db)) \<and>
   (\<forall>product. query_product db pid = Some product \<longrightarrow>
      (inventory product + InventoryUpdate.quantity upd < 0 \<longrightarrow>
         update_product_inventory env db pid upd =
           (Inl (HTTPException 400
                   (CannotReduceInventory (inventory product) (InventoryUpdate.quantity upd))), db)) \<and>
      (0 \<le> inventory product + InventoryUpdate.quantity upd \<and> commit_outcome env = Committed \<longrightarrow>
         fst (update_product_inventory env db pid upd) =
           Inr (product\<lparr>inventory := inventory product + InventoryUpdate.quantity upd\<rparr>) \<and>
         stock (snd (update_product_inventory env db pid upd)) pid =
           Some (inventory product + InventoryUpdate.quantity upd) \<and>
         (\<forall>j. j \<noteq> pid \<longrightarrow> stock (snd (update_product_inventory env db pid upd)) j = stock db j)))"
proof (intro conjI allI impI)
  assume "query_product db pid = None"
  then show "update_product_inventory env db pid upd = (Inl (HTTPException 404 ProductNotFound), db)"
    by (simp add: update_product_inventory_def)
next
  fix product
  assume q: "query_product db pid = Some product"
  have pid: "Product.id' product = pid" using q by (rule query_product_id)
  have sq: "stock db pid = Some (inventory product)" using q by (simp add: stock_def)
  {
    assume "inventory product + InventoryUpdate.quantity upd < 0"
    then show "update_product_inventory env db pid upd =
           (Inl (HTTPException 400
                   (CannotReduceInventory (inventory product) (InventoryUpdate.quantity upd))), db)"
      using q by (simp add: update_product_inventory_def)
  }
  {
    assume ok: "0 \<le> inventory product + InventoryUpdate.quantity upd \<and> commit_outcome env = Committed"
    then have r: "update_product_inventory env db pid upd =
        (Inr (product\<lparr>inventory := inventory product + InventoryUpdate.quantity upd\<rparr>),
         set_inventory pid (inventory product + InventoryUpdate.quantity upd) db)"
      using q pid by (simp add: update_product_inventory_def Let_def)
    show "fst (update_product_inventory env db pid upd) =
           Inr (product\<lparr>inventory := inventory product + InventoryUpdate.quantity upd\<rparr>)"
      by (simp add: r)
    show "stock (snd (update_product_inventory env db pid upd)) pid =
           Some (inventory product + InventoryUpdate.quantity upd)"
      by (simp add: r stock_set_inventory sq)
    fix j assume "j \<noteq> pid"
    then show "stock (snd (update_product_inventory env db pid upd)) j = stock db j"
      by (simp add: r stock_set_inventory)
  }
qed

theorem update_product_inventory_cases_witness:
  "query_product example_db 999 = None \<and>
   update_product_inventory example_env example_db 999 \<lparr>InventoryUpdate.quantity = 10\<rparr>
     = (Inl (HTTPException 404 ProductNotFound), example_db) \<and>
   stock example_db 1 = Some 20 \<and>
   update_product_inventory example_env example_db 1 \<lparr>InventoryUpdate.quantity = - 30\<rparr>
     = (Inl (HTTPException 400 (CannotReduceInventory 20 (- 30))), example_db) \<and>
   commit_outcome example_env = Committed \<and>
   stock (snd (update_product_inventory example_env example_db 1 \<lparr>InventoryUpdate.quantity = - 5\<rparr>)) 1 = Some 15 \<and>
   stock (snd (update_product_inventory example_env example_db 1 \<lparr>InventoryUpdate.quantity = - 5\<rparr>)) 2 = Some 15"
proof -
  let ?p = "\<lparr>name = ''Test Product 1'', description = ''Description 1'', price = 10 :: rat,
          inventory = 20, Product.id' = 1\<rparr>"
  have n: "query_product example_db 999 = None"
    by (simp add: query_product_def example_defs)
  have q: "query_product example_db 1 = Some ?p"
    by (simp add: query_product_def example_defs)
  have s: "stock example_db 1 = Some 20" "stock example_db 2 = Some 15"
    by (simp_all add: stock_def query_product_def example_defs)
  have c: "commit_outcome example_env = Committed" by (simp add: example_defs)
  from update_product_inventory_cases [of example_db 999 example_env "\<lparr>InventoryUpdate.quantity = 10\<rparr>"] n
  have a: "update_product_inventory example_env example_db 999 \<lparr>InventoryUpdate.quantity = 10\<rparr>
     = (Inl (HTTPException 404 ProductNotFound), example_db)"
    by blast
  from update_product_inventory_cases [of example_db 1 example_env "\<lparr>InventoryUpdate.quantity = - 30\<rparr>"] q
  have b: "update_product_inventory example_env example_db 1 \<lparr>InventoryUpdate.quantity = - 30\<rparr>
     = (Inl (HTTPException 400 (CannotReduceInventory 20 (- 30))), example_db)"
    by simp
  from update_product_inventory_cases [of example_db 1 example_env "\<lparr>InventoryUpdate.quantity = - 5\<rparr>"] q c
  have d: "stock (snd (update_product_inventory example_env example_db 1 \<lparr>InventoryUpdate.quantity = - 5\<rparr>)) 1 = Some 15"
    "stock (snd (update_product_inventory example_env example_db 1 \<lparr>InventoryUpdate.quantity = - 5\<rparr>)) 2 = Some 15"
    using s by simp_all
  from n a s b c d show ?thesis by simp
qed

section \<open>An order without lines\<close>

text \<open>
  C9. A request with no lines passes the schema and succeeds when the store commits: the
  order row is inserted and no order line, the subtotal is \<open>0.0\<close>, and, \<open>0.0\<close> being
  below the free shipping threshold, shipping fee and total are both \<open>SHIPPING_FEE\<close>
  (adding \<open>0.0\<close> to the fee gives the fee).
\<close>

theorem create_order_empty_items:
  assumes "OrderCreate.items order = []"
    and "commit_outcome env = Committed"
    and "flt F (float_of_int F 0) (FREE_SHIPPING_THRESHOLD cfg)"
    and "fadd F (float_of_int F 0) (SHIPPING_FEE cfg) = SHIPPING_FEE cfg"
    and "order_id_unused db env"
  shows "items_valid order \<and>
         (\<exists>resp. create_order F cfg env db order =
                   (Inr resp,
                    db\<lparr>orders_table :=
                         orders_table db @ [new_order_row F cfg env order (float_of_int F 0)]\<rparr>) \<and>
            OrderResponse.items resp = [] \<and>
            subtotal resp = float_of_int F 0 \<and>
            shipping_fee resp = SHIPPING_FEE cfg \<and>
            total_amount resp = SHIPPING_FEE cfg)"
proof -
  have v: "items_valid order" using assms(1) by (simp add: items_valid_def)
  have u: "order_rows db (new_order_id env) = []"
    using assms(5) by (simp add: order_id_unused_def)
  have "create_order F cfg env db order =
          (Inr (build_response
                  (db\<lparr>orders_table :=
                       orders_table db @ [new_order_row F cfg env order (float_of_int F 0)]\<rparr>)
                  (new_order_row F cfg env order (float_of_int F 0))),
           db\<lparr>orders_table :=
                orders_table db @ [new_order_row F cfg env order (float_of_int F 0)]\<rparr>)"
    using assms(1,2) by (simp add: create_order_def new_order_row_def Let_def)
  moreover have "OrderResponse.items (build_response
                  (db\<lparr>orders_table :=
                       orders_table db @ [new_order_row F cfg env order (float_of_int F 0)]\<rparr>)
                  (new_order_row F cfg env order (float_of_int F 0))) = []"
    using u by (simp add: build_response_def new_order_row_def order_rows_def)
  ultimately show ?thesis
    using v assms(3,4) by (simp add: build_response_def new_order_row_def)
qed

theorem create_order_empty_items_witness:
  "OrderCreate.items (order_of []) = [] \<and>
   commit_outcome example_env = Committed \<and>
   flt exact_ops (float_of_int exact_ops 0) (FREE_SHIPPING_THRESHOLD example_config) \<and>
   fadd exact_ops (float_of_int exact_ops 0) (SHIPPING_FEE example_config)
     = SHIPPING_FEE example_config \<and>
   order_id_unused example_db example_env \<and>
   (\<exists>resp db'. create_order exact_ops example_config example_env example_db (order_of [])
                 = (Inr resp, db') \<and>
      order_items_table db' = [] \<and> length (orders_table db') = 1 \<and>
      OrderResponse.items resp = [] \<and> subtotal resp = 0 \<and> shipping_fee resp = 5 \<and>
      total_amount resp = 5)"
proof -
  have a: "OrderCreate.items (order_of []) = []" by (simp add: order_of_def)
  have b: "commit_outcome example_env = Committed" by (simp add: example_defs)
  have c: "flt exact_ops (float_of_int exact_ops 0) (FREE_SHIPPING_THRESHOLD example_config)"
    by (simp add: example_defs)
  have d: "fadd exact_ops (float_of_int exact_ops 0) (SHIPPING_FEE example_config)
     = SHIPPING_FEE example_config"
    by (simp add: example_defs)
  have e: "order_id_unused example_db example_env"
    by (simp add: order_id_unused_def order_rows_def example_defs)
  from create_order_empty_items [OF a b c d e] obtain resp where
    r: "create_order exact_ops example_config example_env example_db (order_of [])
           = (Inr resp,
              example_db\<lparr>orders_table := orders_table example_db @
                 [new_order_row exact_ops example_config example_env (order_of [])
                    (float_of_int exact_ops 0)]\<rparr>)"
      "OrderResponse.items resp = []" "subtotal resp = float_of_int exact_ops 0"
      "shipping_fee resp = SHIPPING_FEE example_config"
      "total_amount resp = SHIPPING_FEE example_config"
    by blast
  have "order_items_table (example_db\<lparr>orders_table := orders_table example_db @
                 [new_order_row exact_ops example_config example_env (order_of [])
                    (float_of_int exact_ops 0)]\<rparr>) = []"
    by (simp add: example_db_def)
  moreover have "length (orders_table (example_db\<lparr>orders_table := orders_table example_db @
                 [new_order_row exact_ops example_config example_env (order_of [])
                    (float_of_int exact_ops 0)]\<rparr>)) = 1"
    by (simp add: example_db_def)
  moreover have "subtotal resp = 0" "shipping_fee resp = 5" "total_amount resp = 5"
    using r by (simp_all add: example_defs)
  ultimately show ?thesis using a b c d e r by blast
qed

section \<open>Determinism\<close>

text \<open>
  C10. Two runs on the same products, the same requested lines and the same
  configuration, in which the store answers the commit alike, have the same outcome: the
  same error, or the same priced lines, subtotal, shipping fee and total, and the same
  products afterwards. The customer, the orders already stored, the generated keys and
  the time stamp have no influence.
\<close>

theorem create_order_deterministic:
  assumes "products_table db1 = products_table db2"
    and "OrderCreate.items order1 = OrderCreate.items order2"
    and "commit_outcome env1 = commit_outcome env2"
    and "order_id_unused db1 env1" and "order_id_unused db2 env2"
  shows "outcome (create_order F cfg env1 db1 order1) = outcome (create_order F cfg env2 db2 order2)"
proof (cases "price_items F cfg db1 (OrderCreate.items order1) [] (float_of_int F 0)")
  case (Inl e)
  then have "price_items F cfg db2 (OrderCreate.items order2) [] (float_of_int F 0) = Inl e"
    using assms(1,2) price_items_products_cong [of db1 db2] by simp
  with Inl show ?thesis
    using assms(1) by (simp add: create_order_pricing_error outcome_def)
next
  case (Inr r)
  obtain lines sub where r: "r = (lines, sub)" by (cases r)
  have p1: "price_items F cfg db1 (OrderCreate.items order1) [] (float_of_int F 0) = Inr (lines, sub)"
    using Inr r by simp
  then have p2: "price_items F cfg db2 (OrderCreate.items order2) [] (float_of_int F 0) = Inr (lines, sub)"
    using assms(1,2) price_items_products_cong [of db1 db2] by simp
  from create_order_priced [OF p1, of env1] obtain da where
    c1: "create_order F cfg env1 db1 order1 =
       (case commit_outcome env1 of
          Committed \<Rightarrow> (Inr (build_response da (new_order_row F cfg env1 order1 sub)), da)
        | IntegrityError e \<Rightarrow> (Inl (HTTPException 400 (DatabaseError e)), db1)
        | OperationalError e \<Rightarrow> (Inl (Unhandled e), db1))" and
    a1: "add_order_items env1 (new_order_id env1) 0
       (db1\<lparr>orders_table := orders_table db1 @ [new_order_row F cfg env1 order1 sub]\<rparr>)
       (zip lines (OrderCreate.items order1)) = Inr da" and
    i1: "map item_response (order_rows da (new_order_id env1)) =
       map item_response (order_rows db1 (new_order_id env1)) @ lines"
    by blast
  from create_order_priced [OF p2, of env2] obtain db' where
    c2: "create_order F cfg env2 db2 order2 =
       (case commit_outcome env2 of
          Committed \<Rightarrow> (Inr (build_response db' (new_order_row F cfg env2 order2 sub)), db')
        | IntegrityError e \<Rightarrow> (Inl (HTTPException 400 (DatabaseError e)), db2)
        | OperationalError e \<Rightarrow> (Inl (Unhandled e), db2))" and
    a2: "add_order_items env2 (new_order_id env2) 0
       (db2\<lparr>orders_table := orders_table db2 @ [new_order_row F cfg env2 order2 sub]\<rparr>)
       (zip lines (OrderCreate.items order2)) = Inr db'" and
    i2: "map item_response (order_rows db' (new_order_id env2)) =
       map item_response (order_rows db2 (new_order_id env2)) @ lines"
    by blast
  have pt: "products_table da = products_table db'"
  proof (rule add_order_items_products_cong [OF _ a1])
    show "products_table (db1\<lparr>orders_table := orders_table db1 @ [new_order_row F cfg env1 order1 sub]\<rparr>)
        = products_table (db2\<lparr>orders_table := orders_table db2 @ [new_order_row F cfg env2 order2 sub]\<rparr>)"
      using assms(1) by simp
    show "add_order_items env2 (new_order_id env2) 0
       (db2\<lparr>orders_table := orders_table db2 @ [new_order_row F cfg env2 order2 sub]\<rparr>)
       (zip lines (OrderCreate.items order1)) = Inr db'"
      using a2 assms(2) by simp
  qed
  have it1: "OrderResponse.items (build_response da (new_order_row F cfg env1 order1 sub)) = lines"
    using assms(4) i1 by (simp add: build_response_def new_order_row_def order_id_unused_def)
  have it2: "OrderResponse.items (build_response db' (new_order_row F cfg env2 order2 sub)) = lines"
    using assms(5) i2 by (simp add: build_response_def new_order_row_def order_id_unused_def)
  have m1: "subtotal (build_response da (new_order_row F cfg env1 order1 sub))
            = subtotal (build_response db' (new_order_row F cfg env2 order2 sub))"
       "shipping_fee (build_response da (new_order_row F cfg env1 order1 sub))
            = shipping_fee (build_response db' (new_order_row F cfg env2 order2 sub))"
       "total_amount (build_response da (new_order_row F cfg env1 order1 sub))
            = total_amount (build_response db' (new_order_row F cfg env2 order2 sub))"
    by (simp_all add: build_response_def new_order_row_def)
  show ?thesis
  proof (cases "commit_outcome env1")
    case Committed
    then have "commit_outcome env2 = Committed" using assms(3) by simp
    with Committed show ?thesis
      by (simp add: c1 c2 outcome_def it1 it2 m1 pt)
  next
    case (IntegrityError e)
    then have "commit_outcome env2 = IntegrityError e" using assms(3) by simp
    with IntegrityError show ?thesis
      by (simp add: c1 c2 outcome_def assms(1))
  next
    case (OperationalError e)
    then have "commit_outcome env2 = OperationalError e" using assms(3) by simp
    with OperationalError show ?thesis
      by (simp add: c1 c2 outcome_def assms(1))
  qed
qed

theorem create_order_deterministic_witness:
  "products_table example_db = products_table busy_db \<and>
   OrderCreate.items (order_of [(1, 6), (2, 1)]) = OrderCreate.items (jane_order [(1, 6), (2, 1)]) \<and>
   commit_outcome example_env = commit_outcome later_env \<and>
   order_id_unused example_db example_env \<and> order_id_unused busy_db later_env \<and>
   outcome (create_order exact_ops example_config example_env example_db (order_of [(1, 6), (2, 1)]))
     = outcome (create_order exact_ops example_config later_env busy_db (jane_order [(1, 6), (2, 1)])) \<and>
   create_order exact_ops example_config example_env example_db (order_of [(1, 6), (2, 1)])
     \<noteq> create_order exact_ops example_config later_env busy_db (jane_order [(1, 6), (2, 1)])"
proof -
  have a: "products_table example_db = products_table busy_db"
    by (simp add: busy_db_def)
  have b: "OrderCreate.items (order_of [(1, 6), (2, 1)]) = OrderCreate.items (jane_order [(1, 6), (2, 1)])"
    by (simp add: jane_order_def)
  have c: "commit_outcome example_env = commit_outcome later_env"
    by (simp add: later_env_def example_defs)
  have d: "order_id_unused example_db example_env"
    by (simp add: order_id_unused_def order_rows_def example_defs)
  have e: "order_id_unused busy_db later_env"
    by (simp add: order_id_unused_def order_rows_def example_defs run2_defs)
  have "Order.id' (projr (fst (create_order exact_ops example_config example_env example_db
            (order_of [(1, 6), (2, 1)])))) = 1"
    by (simp add: example_defs run_defs build_response_def)
  moreover have "Order.id' (projr (fst (create_order exact_ops example_config later_env busy_db
            (jane_order [(1, 6), (2, 1)])))) = 2"
    by (simp add: example_defs run2_defs run_defs build_response_def)
  ultimately have f:
    "create_order exact_ops example_config example_env example_db (order_of [(1, 6), (2, 1)])
     \<noteq> create_order exact_ops example_config later_env busy_db (jane_order [(1, 6), (2, 1)])"
    by auto
  from create_order_deterministic [OF a b c d e, of exact_ops example_config] a b c d e f
  show ?thesis by blast
qed

end
